theory Spec2Isabelle
  imports Main "HOL-Library.Sublist"
begin

section \<open>Data model of \<open>returns.contrib.hypothesis.laws\<close>\<close>

text \<open>
  A Python class object, as far as \<open>laws.py\<close> looks at it: its \<open>__module__\<close>
  attribute (absent for some objects, hence an option; the source reads it with
  \<open>getattr(base_type, '__module__', '')\<close>) and its \<open>__qualname__\<close>.
  A class is identified by these two attributes.
\<close>

datatype py_class = Py_class (module_attr: "string option") (qualname: string)

definition getattr_module :: "py_class \<Rightarrow> string" where
  "getattr_module c = (case module_attr c of None \<Rightarrow> [] | Some m \<Rightarrow> m)"

text \<open>The two keys of the engine's lookup table that the source names: \<open>typing.Callable\<close>
  and \<open>typing.TypeVar\<close>; and the three interfaces it tests with \<open>issubclass\<close>.\<close>

definition Callable :: py_class where
  "Callable = Py_class (Some ''typing'') ''Callable''"

definition TypeVar :: py_class where
  "TypeVar = Py_class (Some ''typing'') ''TypeVar''"

definition ApplicativeN :: py_class where
  "ApplicativeN = Py_class (Some ''returns.interfaces.applicative'') ''ApplicativeN''"

definition ResultLikeN :: py_class where
  "ResultLikeN = Py_class (Some ''returns.interfaces.specific.result'') ''ResultLikeN''"

definition MaybeLikeN :: py_class where
  "MaybeLikeN = Py_class (Some ''returns.interfaces.specific.maybe'') ''MaybeLikeN''"

text \<open>\<open>Law\<close> of \<open>returns.primitives.laws\<close>: its \<open>name\<close> and its \<open>definition\<close>
  (an opaque callable, named by a number).\<close>

record law =
  law_name :: string
  law_definition :: nat

text \<open>
  A container type (\<open>Type[Lawful]\<close>): the class itself, the rest of its \<open>__mro__\<close>,
  whether \<open>getattr(container_type, '__init__', None)\<close> is truthy, and what its
  \<open>laws()\<close> classmethod returns (a dict, kept as its items in insertion order).
\<close>

record container =
  self_class :: py_class
  ancestors :: "py_class list"
  dunder_init :: bool
  laws :: "(py_class \<times> law list) list"

text \<open>\<open>__mro__\<close> starts with the class itself. \<open>issubclass\<close> is membership in the
  MRO, as it is for classes without a subclass hook.\<close>

definition mro :: "container \<Rightarrow> py_class list" where
  "mro ct = self_class ct # ancestors ct"

definition issubclass :: "container \<Rightarrow> py_class \<Rightarrow> bool" where
  "issubclass ct base = (base \<in> set (mro ct))"

text \<open>Values that the engine draws; \<open>py_eq\<close> is Python's \<open>==\<close> on one value
  compared with itself and with others: \<open>nan\<close> is not equal to itself.\<close>

datatype py_value = PyNone | PyBool bool | PyInt int | PyStr string | PyNaN

fun py_eq :: "py_value \<Rightarrow> py_value \<Rightarrow> bool" where
  "py_eq PyNaN _ = False"
| "py_eq _ PyNaN = False"
| "py_eq a b = (a = b)"

text \<open>\<open>_Settings\<close>, the NamedTuple of the source.\<close>

record Settings =
  settings_kwargs :: "(string \<times> py_value) list"
  use_init :: bool

text \<open>
  A type expression handed to a registered factory as \<open>thing\<close>: a class, a type
  variable, or a \<open>Callable[...]\<close> alias with its \<open>__args__\<close> tuple.
\<close>

datatype py_type =
    Class_type py_class
  | TypeVar_type string
  | Callable_type (dunder_args: "py_type list")

text \<open>The signature of the \<open>like\<close> lambda given to \<open>st.functions\<close>:
  \<open>lambda: None\<close> or \<open>lambda *args, **kwargs: None\<close>.\<close>

datatype signature = No_parameters | Var_parameters

text \<open>What \<open>st.builds\<close> is applied to in the source.\<close>

datatype target =
    Init py_class
  | From_value py_class
  | From_failure py_class
  | From_optional py_class
  | Law_definition nat

text \<open>The strategy expressions that the source composes from the engine's combinators.\<close>

datatype strategy =
    Builds target
  | One_of "strategy list"
  | Filter_self_equal strategy
  | Resolve_TypeVar py_type
  | Functions signature strategy bool
  | From_type py_type

text \<open>
  What is stored under a key of \<open>types._global_type_lookup\<close>: one of the three
  closures of the source, or an entry that was put there by the engine or by somebody
  else (opaque, named by a number).
\<close>

datatype entry =
    Container_factory container bool
  | Pure_functions_factory
  | Type_vars_factory
  | Engine_entry nat

type_synonym lookup = "py_class \<rightharpoonup> entry"

datatype exn =
    KeyError py_class | IndexError | RuntimeError | AttributeError | TypeError
  | InvalidArgument | Engine_failure nat

text \<open>The result of running a piece of code on the lookup table: it returns, or it
  raises, and in both cases the table is what the code left.\<close>

datatype outcome = Done lookup | Raised exn lookup

section \<open>The engine's table operations\<close>

text \<open>\<open>st.register_type_strategy(key, value)\<close> stores the value under the key;
  \<open>dict.pop(key)\<close> with no default raises \<open>KeyError\<close> on a missing key.\<close>

definition register_type_strategy :: "py_class \<Rightarrow> entry \<Rightarrow> lookup \<Rightarrow> lookup" where
  "register_type_strategy k v t = t(k \<mapsto> v)"

definition pop :: "py_class \<Rightarrow> lookup \<Rightarrow> outcome" where
  "pop k t = (case t k of None \<Rightarrow> Raised (KeyError k) t | Some _ \<Rightarrow> Done (t(k := None)))"

fun pop_all :: "py_class list \<Rightarrow> lookup \<Rightarrow> outcome" where
  "pop_all [] t = Done t"
| "pop_all (k # ks) t =
     (case pop k t of Raised e t' \<Rightarrow> Raised e t' | Done t' \<Rightarrow> pop_all ks t')"

section \<open>The container factory\<close>

definition create_container_factory :: "container \<Rightarrow> bool \<Rightarrow> py_type \<Rightarrow> strategy" where
  "create_container_factory ct ui requested =
     One_of
       ((if ui \<and> dunder_init ct then [Builds (Init (self_class ct))] else []) @
        (if issubclass ct ApplicativeN then [Builds (From_value (self_class ct))] else []) @
        (if issubclass ct ResultLikeN then [Builds (From_failure (self_class ct))] else []) @
        (if issubclass ct MaybeLikeN then [Builds (From_optional (self_class ct))] else []))"

section \<open>The scopes\<close>

text \<open>
  Each \<open>@contextmanager\<close> generator is a function of the scope body and of the table at
  entry. None of them wraps its \<open>yield\<close> in \<open>try\<close>: an exception of the body leaves
  the generator at the \<open>yield\<close> and the statements after it do not run.
\<close>

definition maybe_register_container ::
  "container \<Rightarrow> bool \<Rightarrow> (lookup \<Rightarrow> outcome) \<Rightarrow> lookup \<Rightarrow> outcome" where
  "maybe_register_container ct ui body t =
     (let unknown_container = (t (self_class ct) = None);
          t1 = (if unknown_container
                then register_type_strategy (self_class ct) (Container_factory ct ui) t
                else t)
      in case body t1 of
           Raised e t2 \<Rightarrow> Raised e t2
         | Done t2 \<Rightarrow> if unknown_container then pop (self_class ct) t2 else Done t2)"

text \<open>\<open>our_interfaces\<close> is a Python set: here the classes of the MRO that pass the
  test, without repetition, in MRO order. Python visits a set in an order of its own; the
  order shows only in which key the exit of \<open>container_strategies\<close> misses first when
  the body removed some of them.\<close>

definition our_interfaces :: "container \<Rightarrow> py_class list" where
  "our_interfaces ct =
     remdups (filter (\<lambda>base_type. prefix ''returns.'' (getattr_module base_type)) (mro ct))"

fun register_all :: "py_class list \<Rightarrow> entry \<Rightarrow> lookup \<Rightarrow> lookup" where
  "register_all [] v t = t"
| "register_all (k # ks) v t = register_all ks v (register_type_strategy k v t)"

definition container_strategies ::
  "container \<Rightarrow> Settings \<Rightarrow> (lookup \<Rightarrow> outcome) \<Rightarrow> lookup \<Rightarrow> outcome" where
  "container_strategies ct settings body t =
     (let t1 = register_all (our_interfaces ct) (Container_factory ct (use_init settings)) t
      in case maybe_register_container ct (use_init settings) body t1 of
           Raised e t2 \<Rightarrow> Raised e t2
         | Done t2 \<Rightarrow> pop_all (our_interfaces ct) t2)"

definition pure_functions :: "(lookup \<Rightarrow> outcome) \<Rightarrow> lookup \<Rightarrow> outcome" where
  "pure_functions body t =
     (case t Callable of
        None \<Rightarrow> Raised (KeyError Callable) t
      | Some used \<Rightarrow>
          (case body (register_type_strategy Callable Pure_functions_factory t) of
             Raised e t2 \<Rightarrow> Raised e t2
           | Done t2 \<Rightarrow>
               (case pop Callable t2 of
                  Raised e t3 \<Rightarrow> Raised e t3
                | Done t3 \<Rightarrow> Done (register_type_strategy Callable used t3))))"

definition type_vars :: "(lookup \<Rightarrow> outcome) \<Rightarrow> lookup \<Rightarrow> outcome" where
  "type_vars body t =
     (case t TypeVar of
        None \<Rightarrow> Raised (KeyError TypeVar) t
      | Some used \<Rightarrow>
          (case body (register_type_strategy TypeVar Type_vars_factory t) of
             Raised e t2 \<Rightarrow> Raised e t2
           | Done t2 \<Rightarrow>
               (case pop TypeVar t2 of
                  Raised e t3 \<Rightarrow> Raised e t3
                | Done t3 \<Rightarrow> Done (register_type_strategy TypeVar used t3))))"

section \<open>The factories for type variables and for callables\<close>

text \<open>\<open>factory\<close> of \<open>type_vars\<close>: the engine's own resolution of the variable, as the
  only member of a union, filtered by \<open>lambda inner: inner == inner\<close>.\<close>

definition type_vars_factory :: "py_type \<Rightarrow> strategy" where
  "type_vars_factory thing = Filter_self_equal (One_of [Resolve_TypeVar thing])"

text \<open>\<open>factory\<close> of \<open>pure_functions\<close>. Only a \<open>Callable\<close> alias has
  \<open>__args__\<close>: on any other \<open>thing\<close> the test \<open>len(thing.__args__) == 1\<close>, which
  comes first, raises \<open>AttributeError\<close>; \<open>thing.__args__[-1]\<close> raises \<open>IndexError\<close>
  on an empty tuple.\<close>

definition like_of :: "py_type list \<Rightarrow> signature" where
  "like_of as = (if length as = 1 then No_parameters else Var_parameters)"

definition pure_functions_factory :: "py_type \<Rightarrow> exn + strategy" where
  "pure_functions_factory thing =
     (case thing of
        Callable_type as \<Rightarrow>
          (if as = [] then Inl IndexError
           else Inr (Functions (like_of as) (From_type (last as)) True))
      | _ \<Rightarrow> Inl AttributeError)"



text \<open>
  The values a strategy expression can yield. The engine combinators composed by the
  source are read as the engine documents them: \<open>one_of\<close> yields what one of its members
  yields, \<open>filter\<close> what its base yields and the predicate accepts. Every other strategy
  is the engine's own, and \<open>eng\<close> says what it yields.
\<close>

fun yields :: "(strategy \<Rightarrow> py_value \<Rightarrow> bool) \<Rightarrow> strategy \<Rightarrow> py_value \<Rightarrow> bool" where
  "yields eng (One_of ss) v = list_ex (\<lambda>s. yields eng s v) ss"
| "yields eng (Filter_self_equal s) v = (yields eng s v \<and> py_eq v v)"
| "yields eng s v = eng s v"

text \<open>What the engine gets when it calls a registered entry on \<open>thing\<close>; \<open>other\<close> stands
  for the entries that are not closures of this module.\<close>

definition call_entry ::
  "(nat \<Rightarrow> py_type \<Rightarrow> exn + strategy) \<Rightarrow> entry \<Rightarrow> py_type \<Rightarrow> exn + strategy" where
  "call_entry other e thing =
     (case e of
        Container_factory ct ui \<Rightarrow> Inr (create_container_factory ct ui thing)
      | Pure_functions_factory \<Rightarrow> pure_functions_factory thing
      | Type_vars_factory \<Rightarrow> Inr (type_vars_factory thing)
      | Engine_entry n \<Rightarrow> other n thing)"






section \<open>Running one law\<close>

text \<open>
  \<open>_run_law\<close> returns the check \<open>factory(source)\<close>. \<open>_pyversion\<close> is
  \<open>sys.version_info[:2]\<close>, a pair compared as Python compares tuples. The data object
  \<open>source\<close> is the engine's: its \<open>draw\<close> is a function of the strategy and of the table.
\<close>

type_synonym data_object = "strategy \<Rightarrow> lookup \<Rightarrow> outcome"

definition version_less :: "nat \<times> nat \<Rightarrow> nat \<times> nat \<Rightarrow> bool" where
  "version_less a b = (fst a < fst b \<or> (fst a = fst b \<and> snd a < snd b))"

definition run_law ::
  "nat \<times> nat \<Rightarrow> container \<Rightarrow> law \<Rightarrow> Settings \<Rightarrow> data_object \<Rightarrow> lookup \<Rightarrow> outcome" where
  "run_law pyversion ct l settings source t =
     (if version_less pyversion (3, 7) then Raised RuntimeError t
      else type_vars
             (pure_functions
                (container_strategies ct settings
                   (source (Builds (Law_definition (law_definition l)))))) t)"

section \<open>Building and publishing the test cases\<close>

text \<open>
  \<open>str.lower\<close> is Python's and covers every cased letter of Unicode: the functions of
  this section take it as the parameter \<open>str_lower\<close>. On a string of ASCII characters it
  is \<open>ascii_lower\<close>.
\<close>

definition ascii_lower_char :: "char \<Rightarrow> char" where
  "ascii_lower_char c =
     (let n = (of_char c :: nat) in if 65 \<le> n \<and> n \<le> 90 then char_of (n + 32) else c)"

definition ascii_lower :: "string \<Rightarrow> string" where
  "ascii_lower s = map ascii_lower_char s"

definition is_ascii :: "string \<Rightarrow> bool" where
  "is_ascii s = list_all (\<lambda>c. (of_char c :: nat) < 128) s"

definition test_name :: "(string \<Rightarrow> string) \<Rightarrow> container \<Rightarrow> py_class \<Rightarrow> law \<Rightarrow> string" where
  "test_name str_lower ct interface l =
     ''test_'' @ str_lower (qualname (self_class ct)) @ ''_'' @
     str_lower (qualname interface) @ ''_'' @ law_name l"

text \<open>The published object: the check of \<open>_run_law\<close> for this container, law and
  settings, wrapped by \<open>given\<close> and \<open>hypothesis_settings\<close>, renamed, and marked
  \<open>returns_lawful\<close>.\<close>

record test_function =
  dunder_name :: string
  checked_container :: container
  checked_law :: law
  checked_with :: Settings

type_synonym module_namespace = "string \<rightharpoonup> test_function"

text \<open>
  \<open>_create_law_test_case\<close> first builds the test function: \<open>hypothesis_settings\<close>
  applied to \<open>settings_kwargs\<close> raises \<open>InvalidArgument\<close> for settings that the engine
  rejects, and \<open>settings_ok\<close> is the engine's verdict. Then \<open>inspect.getmodule\<close> of the
  frame that called \<open>check_all_laws\<close> is the invoking module, or \<open>None\<close> when that
  frame belongs to no module; \<open>setattr\<close> on \<open>None\<close> raises \<open>AttributeError\<close>. A
  module is its namespace here.
\<close>

definition create_law_test_case ::
  "(string \<Rightarrow> string) \<Rightarrow> ((string \<times> py_value) list \<Rightarrow> bool) \<Rightarrow>
   container \<Rightarrow> py_class \<Rightarrow> law \<Rightarrow> Settings \<Rightarrow> module_namespace option \<Rightarrow>
   exn + module_namespace" where
  "create_law_test_case str_lower settings_ok ct interface l settings module =
     (if \<not> settings_ok (settings_kwargs settings) then Inl InvalidArgument
      else
        let test_function =
              \<lparr>dunder_name = test_name str_lower ct interface l, checked_container = ct,
               checked_law = l, checked_with = settings\<rparr>
        in case module of
             None \<Rightarrow> Inl AttributeError
           | Some m \<Rightarrow> Inr (m(dunder_name test_function \<mapsto> test_function)))"

text \<open>The (interface, law) pairs in the order in which the two nested \<open>for\<close>
  statements of \<open>check_all_laws\<close> visit them.\<close>

definition law_pairs :: "container \<Rightarrow> (py_class \<times> law) list" where
  "law_pairs ct = concat (map (\<lambda>(interface, ls). map (\<lambda>l. (interface, l)) ls) (laws ct))"

fun create_all ::
  "(string \<Rightarrow> string) \<Rightarrow> ((string \<times> py_value) list \<Rightarrow> bool) \<Rightarrow>
   container \<Rightarrow> Settings \<Rightarrow> (py_class \<times> law) list \<Rightarrow> module_namespace option \<Rightarrow>
   exn + module_namespace option" where
  "create_all str_lower settings_ok ct settings [] module = Inr module"
| "create_all str_lower settings_ok ct settings ((interface, l) # ps) module =
     (case create_law_test_case str_lower settings_ok ct interface l settings module of
        Inl e \<Rightarrow> Inl e
      | Inr m \<Rightarrow> create_all str_lower settings_ok ct settings ps (Some m))"

definition check_all_laws ::
  "(string \<Rightarrow> string) \<Rightarrow> ((string \<times> py_value) list \<Rightarrow> bool) \<Rightarrow>
   container \<Rightarrow> (string \<times> py_value) list option \<Rightarrow> bool \<Rightarrow> module_namespace option \<Rightarrow>
   exn + module_namespace option" where
  "check_all_laws str_lower settings_ok ct kwargs ui module =
     (let settings =
            \<lparr>settings_kwargs = (case kwargs of None \<Rightarrow> [] | Some kw \<Rightarrow> kw), use_init = ui\<rparr>
      in create_all str_lower settings_ok ct settings (law_pairs ct) module)"

text \<open>The names that \<open>check_all_laws\<close> publishes under, in order, and the number of laws
  that \<open>laws()\<close> lists.\<close>

definition published_names :: "(string \<Rightarrow> string) \<Rightarrow> container \<Rightarrow> string list" where
  "published_names str_lower ct =
     map (\<lambda>(interface, l). test_name str_lower ct interface l) (law_pairs ct)"


text \<open>Which construction capability the factory finds for a container.\<close>

definition no_capability :: "container \<Rightarrow> bool \<Rightarrow> bool" where
  "no_capability ct ui =
     (\<not> (ui \<and> dunder_init ct) \<and> \<not> issubclass ct ApplicativeN \<and>
      \<not> issubclass ct ResultLikeN \<and> \<not> issubclass ct MaybeLikeN)"

text \<open>The table that a piece of code leaves, however it ends.\<close>

fun table_of :: "outcome \<Rightarrow> lookup" where
  "table_of (Done t) = t"
| "table_of (Raised e t) = t"

text \<open>The names bound in the module after \<open>check_all_laws\<close>: none when it raised or
  when there is no module.\<close>

fun published :: "exn + module_namespace option \<Rightarrow> string set" where
  "published (Inr (Some m)) = dom m"
| "published _ = {}"

text \<open>The object that \<open>_create_law_test_case\<close> publishes for an (interface, law)
  pair.\<close>

definition the_test ::
  "(string \<Rightarrow> string) \<Rightarrow> container \<Rightarrow> Settings \<Rightarrow> py_class \<times> law \<Rightarrow> test_function" where
  "the_test str_lower ct settings p =
     \<lparr>dunder_name = test_name str_lower ct (fst p) (snd p), checked_container = ct,
      checked_law = snd p, checked_with = settings\<rparr>"

text \<open>The pairs of a list that are published under a given name.\<close>

definition named ::
  "(string \<Rightarrow> string) \<Rightarrow> container \<Rightarrow> string \<Rightarrow> (py_class \<times> law) list \<Rightarrow> (py_class \<times> law) list" where
  "named str_lower ct n ps = filter (\<lambda>p. test_name str_lower ct (fst p) (snd p) = n) ps"

text \<open>The keys that \<open>container_strategies\<close> pops on a normal exit: the interfaces, and
  the container itself when \<open>maybe_register_container\<close> registered it.\<close>

definition popped :: "container \<Rightarrow> lookup \<Rightarrow> py_class set" where
  "popped ct t =
     set (our_interfaces ct) \<union>
     (if self_class ct \<notin> set (our_interfaces ct) \<and> t (self_class ct) = None
      then {self_class ct} else {})"

text \<open>The table that the body of \<open>container_strategies\<close> starts with: the interfaces
  registered, then the container itself if nothing was registered under it.\<close>

definition entered :: "container \<Rightarrow> bool \<Rightarrow> lookup \<Rightarrow> lookup" where
  "entered ct ui t =
     (let t1 = register_all (our_interfaces ct) (Container_factory ct ui) t
      in if t1 (self_class ct) = None
         then register_type_strategy (self_class ct) (Container_factory ct ui) t1
         else t1)"

section \<open>Example inputs\<close>

text \<open>Scenario A of the specification: \<open>Box\<close>, declared outside the package, with the
  interface \<open>Mappable\<close> and the law \<open>identity\<close>; it can be built from a value only.\<close>

definition Mappable :: py_class where
  "Mappable = Py_class (Some ''returns.interfaces.mappable'') ''Mappable''"

definition object :: py_class where
  "object = Py_class (Some ''builtins'') ''object''"

definition identity :: law where
  "identity = \<lparr>law_name = ''identity'', law_definition = 0\<rparr>"

definition Box :: container where
  "Box = \<lparr>self_class = Py_class (Some ''tests.box'') ''Box'',
          ancestors = [Mappable, ApplicativeN, object],
          dunder_init = True,
          laws = [(Mappable, [identity])]\<rparr>"

text \<open>A container with no construction method, and one whose two interfaces share their
  name; a law whose function name has a capital letter.\<close>

definition Bare :: container where
  "Bare = \<lparr>self_class = Py_class (Some ''tests.bare'') ''Bare'',
           ancestors = [Mappable, object],
           dunder_init = True,
           laws = [(Mappable, [identity])]\<rparr>"


definition Identity_law :: law where
  "Identity_law = \<lparr>law_name = ''Identity'', law_definition = 1\<rparr>"

text \<open>A table as the engine has it before any scope: entries for \<open>TypeVar\<close> and
  \<open>Callable\<close>; and a body that fails.\<close>

definition engine_lookup :: lookup where
  "engine_lookup = [TypeVar \<mapsto> Engine_entry 0, Callable \<mapsto> Engine_entry 1]"

definition failing :: "lookup \<Rightarrow> outcome" where
  "failing t = Raised (Engine_failure 0) t"

text \<open>The engine's verdict on settings, for the examples: no settings at all are
  accepted, and nothing is said of any other.\<close>

definition no_settings :: "(string \<times> py_value) list \<Rightarrow> bool" where
  "no_settings kw = (kw = [])"


section \<open>Table operations\<close>

lemma register_all_eq:
  "register_all ks v t = (\<lambda>k. if k \<in> set ks then Some v else t k)"
  by (induction ks arbitrary: t) (auto simp: register_type_strategy_def fun_eq_iff)

lemma pop_all_bound:
  "distinct ks \<Longrightarrow> \<forall>k\<in>set ks. t k \<noteq> None \<Longrightarrow>
   pop_all ks t = Done (\<lambda>k. if k \<in> set ks then None else t k)"
proof (induction ks arbitrary: t)
  case Nil
  then show ?case by simp
next
  case (Cons a ks)
  from Cons.prems obtain e where a: "t a = Some e" by auto
  have "pop_all ks (t(a := None)) = Done (\<lambda>k. if k \<in> set ks then None else (t(a := None)) k)"
    using Cons.prems by (intro Cons.IH) auto
  then show ?case using a by (auto simp: pop_def fun_eq_iff)
qed

lemma distinct_our_interfaces: "distinct (our_interfaces ct)"
  by (simp add: our_interfaces_def)

lemma set_our_interfaces:
  "set (our_interfaces ct) =
   {base_type \<in> set (mro ct). prefix ''returns.'' (getattr_module base_type)}"
  by (auto simp: our_interfaces_def)

section \<open>The scopes on a normal exit\<close>

lemma maybe_register_container_bound:
  "t (self_class ct) = Some e \<Longrightarrow> maybe_register_container ct ui body t = body t"
  by (cases "body t") (simp_all add: maybe_register_container_def)

lemma maybe_register_container_unbound:
  "t (self_class ct) = None \<Longrightarrow>
   maybe_register_container ct ui body t =
   (case body (t(self_class ct \<mapsto> Container_factory ct ui)) of
      Raised e t2 \<Rightarrow> Raised e t2
    | Done t2 \<Rightarrow> pop (self_class ct) t2)"
  by (simp add: maybe_register_container_def register_type_strategy_def split: outcome.splits)

lemma maybe_register_container_restores:
  assumes "body (if t (self_class ct) = None
                 then register_type_strategy (self_class ct) (Container_factory ct ui) t
                 else t) =
           Done (if t (self_class ct) = None
                 then register_type_strategy (self_class ct) (Container_factory ct ui) t
                 else t)"
  shows "maybe_register_container ct ui body t = Done t"
proof (cases "t (self_class ct)")
  case None
  then have "(t(self_class ct \<mapsto> Container_factory ct ui))(self_class ct := None) = t"
    by (auto simp: fun_eq_iff)
  with None assms show ?thesis
    by (simp add: maybe_register_container_def register_type_strategy_def pop_def)
next
  case (Some e)
  with assms show ?thesis by (simp add: maybe_register_container_def)
qed

lemma type_vars_restores:
  assumes "t TypeVar \<noteq> None"
    and "body (register_type_strategy TypeVar Type_vars_factory t) =
         Done (register_type_strategy TypeVar Type_vars_factory t)"
  shows "type_vars body t = Done t"
proof -
  from assms(1) obtain used where u: "t TypeVar = Some used" by auto
  then have "t(TypeVar \<mapsto> used) = t" by (auto simp: fun_eq_iff)
  with u assms(2) show ?thesis
    by (simp add: type_vars_def register_type_strategy_def pop_def)
qed

lemma pure_functions_restores:
  assumes "t Callable \<noteq> None"
    and "body (register_type_strategy Callable Pure_functions_factory t) =
         Done (register_type_strategy Callable Pure_functions_factory t)"
  shows "pure_functions body t = Done t"
proof -
  from assms(1) obtain used where u: "t Callable = Some used" by auto
  then have "t(Callable \<mapsto> used) = t" by (auto simp: fun_eq_iff)
  with u assms(2) show ?thesis
    by (simp add: pure_functions_def register_type_strategy_def pop_def)
qed

lemma container_strategies_restores:
  assumes fresh: "\<forall>k\<in>set (our_interfaces ct). t k = None"
    and body: "body (entered ct (use_init settings) t) = Done (entered ct (use_init settings) t)"
  shows "container_strategies ct settings body t = Done t"
proof -
  let ?F = "Container_factory ct (use_init settings)"
  let ?t1 = "register_all (our_interfaces ct) ?F t"
  have inner: "maybe_register_container ct (use_init settings) body ?t1 = Done ?t1"
    using body unfolding entered_def Let_def by (rule maybe_register_container_restores)
  have "pop_all (our_interfaces ct) ?t1 =
        Done (\<lambda>k. if k \<in> set (our_interfaces ct) then None else ?t1 k)"
    by (rule pop_all_bound) (simp_all add: distinct_our_interfaces register_all_eq)
  moreover have "(\<lambda>k. if k \<in> set (our_interfaces ct) then None else ?t1 k) = t"
    using fresh by (auto simp: register_all_eq fun_eq_iff)
  ultimately show ?thesis
    using inner by (simp add: container_strategies_def)
qed

lemma our_interfaces_Box: "our_interfaces Box = [Mappable, ApplicativeN]"
  by code_simp

lemma engine_lookup_simps:
  "engine_lookup TypeVar = Some (Engine_entry 0)"
  "engine_lookup Callable = Some (Engine_entry 1)"
  "engine_lookup Mappable = None"
  "engine_lookup ApplicativeN = None"
  "engine_lookup (self_class Box) = None"
  by (simp_all add: engine_lookup_def TypeVar_def Callable_def Mappable_def ApplicativeN_def
      Box_def)

section \<open>What the scopes leave behind\<close>

lemma keys_differ:
  "self_class Box \<noteq> TypeVar" "self_class Box \<noteq> Callable" "self_class Box \<noteq> Mappable"
  "self_class Box \<noteq> ApplicativeN" "Mappable \<noteq> ApplicativeN" "Mappable \<noteq> TypeVar"
  "Mappable \<noteq> Callable" "ApplicativeN \<noteq> TypeVar" "ApplicativeN \<noteq> Callable"
  "TypeVar \<noteq> Callable"
  by (simp_all add: Box_def TypeVar_def Callable_def Mappable_def ApplicativeN_def)

lemma failed_run_table:
  "run_law (3, 7) Box identity \<lparr>settings_kwargs = [], use_init = False\<rparr> (\<lambda>s. failing)
     engine_lookup =
   Raised (Engine_failure 0)
     (engine_lookup(TypeVar \<mapsto> Type_vars_factory, Callable \<mapsto> Pure_functions_factory,
        Mappable \<mapsto> Container_factory Box False,
        ApplicativeN \<mapsto> Container_factory Box False,
        self_class Box \<mapsto> Container_factory Box False))"
  using keys_differ keys_differ [symmetric]
  by (auto simp: run_law_def version_less_def type_vars_def pure_functions_def
      container_strategies_def maybe_register_container_def failing_def our_interfaces_Box
      engine_lookup_simps register_type_strategy_def register_all_eq fun_eq_iff)

lemma later_run_table:
  "run_law (3, 7) Box identity \<lparr>settings_kwargs = [], use_init = False\<rparr> (\<lambda>s. Done)
     (engine_lookup(TypeVar \<mapsto> Type_vars_factory, Callable \<mapsto> Pure_functions_factory,
        Mappable \<mapsto> Container_factory Box False,
        ApplicativeN \<mapsto> Container_factory Box False,
        self_class Box \<mapsto> Container_factory Box False)) =
   Done (engine_lookup(TypeVar \<mapsto> Type_vars_factory, Callable \<mapsto> Pure_functions_factory,
        self_class Box \<mapsto> Container_factory Box False))"
  using keys_differ keys_differ [symmetric]
  by (auto simp: run_law_def version_less_def type_vars_def pure_functions_def
      container_strategies_def maybe_register_container_def our_interfaces_Box
      engine_lookup_simps register_type_strategy_def register_all_eq pop_def fun_eq_iff)

text \<open>
  C1. After any scope of the registry manager the table should hold the bindings it held
  before the scope, on a normal exit and on an exit by an exception of the body. Every
  scope restores after its \<open>yield\<close>, but none guards the \<open>yield\<close>, so the code
  breaks this when the body raises: the table is left as the body left it, with the
  bindings of the scope in place. \<open>container_strategies\<close> breaks it on a normal exit
  too, when an interface was registered before: it pops the binding where
  \<open>type_vars\<close> and \<open>pure_functions\<close> put the earlier one back. Here: a failing body
  in each of the four scopes; a returning body in \<open>container_strategies\<close> with
  \<open>Mappable\<close> registered beforehand; and one failing run of a check followed by a
  passing one, after which \<open>TypeVar\<close> and \<open>Callable\<close> are still bound to the
  factories of this module and \<open>Box\<close> is still registered.
\<close>

theorem scopes_not_restored:
  "table_of (type_vars failing engine_lookup) \<noteq> engine_lookup \<and>
   table_of (pure_functions failing engine_lookup) \<noteq> engine_lookup \<and>
   table_of (maybe_register_container Box False failing engine_lookup) \<noteq> engine_lookup \<and>
   table_of (container_strategies Box \<lparr>settings_kwargs = [], use_init = False\<rparr> failing
               engine_lookup) \<noteq> engine_lookup \<and>
   table_of (container_strategies Box \<lparr>settings_kwargs = [], use_init = False\<rparr> Done
               (engine_lookup(Mappable \<mapsto> Engine_entry 2))) \<noteq>
   engine_lookup(Mappable \<mapsto> Engine_entry 2) \<and>
   run_law (3, 7) Box identity \<lparr>settings_kwargs = [], use_init = False\<rparr> (\<lambda>s. Done)
     (table_of (run_law (3, 7) Box identity \<lparr>settings_kwargs = [], use_init = False\<rparr>
                  (\<lambda>s. failing) engine_lookup)) =
     Done (engine_lookup(TypeVar \<mapsto> Type_vars_factory, Callable \<mapsto> Pure_functions_factory,
             self_class Box \<mapsto> Container_factory Box False)) \<and>
   engine_lookup TypeVar = Some (Engine_entry 0) \<and>
   engine_lookup Callable = Some (Engine_entry 1) \<and>
   engine_lookup (self_class Box) = None"
proof (intro conjI)
  show "run_law (3, 7) Box identity \<lparr>settings_kwargs = [], use_init = False\<rparr> (\<lambda>s. Done)
     (table_of (run_law (3, 7) Box identity \<lparr>settings_kwargs = [], use_init = False\<rparr>
                  (\<lambda>s. failing) engine_lookup)) =
     Done (engine_lookup(TypeVar \<mapsto> Type_vars_factory, Callable \<mapsto> Pure_functions_factory,
             self_class Box \<mapsto> Container_factory Box False))"
    by (simp only: failed_run_table table_of.simps later_run_table)
  show "engine_lookup TypeVar = Some (Engine_entry 0)"
    "engine_lookup Callable = Some (Engine_entry 1)"
    "engine_lookup (self_class Box) = None"
    by (simp_all add: engine_lookup_simps)
  show "table_of (type_vars failing engine_lookup) \<noteq> engine_lookup"
    by (auto simp: type_vars_def failing_def engine_lookup_simps register_type_strategy_def
        fun_eq_iff intro!: exI [of _ TypeVar])
  show "table_of (pure_functions failing engine_lookup) \<noteq> engine_lookup"
    by (auto simp: pure_functions_def failing_def engine_lookup_simps
        register_type_strategy_def fun_eq_iff intro!: exI [of _ Callable])
  show "table_of (maybe_register_container Box False failing engine_lookup) \<noteq> engine_lookup"
    by (auto simp: maybe_register_container_def failing_def engine_lookup_simps
        register_type_strategy_def fun_eq_iff intro!: exI [of _ "self_class Box"])
  show "table_of (container_strategies Box \<lparr>settings_kwargs = [], use_init = False\<rparr> failing
                    engine_lookup) \<noteq> engine_lookup"
    by (auto simp: container_strategies_def maybe_register_container_def failing_def
        our_interfaces_Box register_all_eq engine_lookup_simps register_type_strategy_def
        fun_eq_iff intro!: exI [of _ Mappable])
  have "self_class Box \<noteq> Mappable" "self_class Box \<noteq> ApplicativeN"
    "Mappable \<noteq> ApplicativeN"
    by (simp_all add: Box_def Mappable_def ApplicativeN_def)
  then show "table_of (container_strategies Box \<lparr>settings_kwargs = [], use_init = False\<rparr> Done
                    (engine_lookup(Mappable \<mapsto> Engine_entry 2))) \<noteq>
             engine_lookup(Mappable \<mapsto> Engine_entry 2)"
    by (auto simp: container_strategies_def maybe_register_container_def
        our_interfaces_Box register_all_eq engine_lookup_simps register_type_strategy_def
        pop_def fun_eq_iff intro!: exI [of _ Mappable])
qed

text \<open>
  C7. \<open>maybe_register_container\<close> registers the container only when nothing is
  registered under it at entry, and removes on exit only what it registered: with the
  container bound at entry the scope is its body and nothing else, with the container
  unbound it registers the factory, runs the body and pops the container. Opening the
  scope inside itself is opening it once, for every body and every table.
\<close>

theorem maybe_register_container_idempotent:
  "maybe_register_container ct ui (maybe_register_container ct ui' body) t =
     maybe_register_container ct ui body t \<and>
   (t (self_class ct) \<noteq> None \<longrightarrow> maybe_register_container ct ui body t = body t) \<and>
   (t (self_class ct) = None \<longrightarrow>
    maybe_register_container ct ui body t =
      (case body (t(self_class ct \<mapsto> Container_factory ct ui)) of
         Raised e t2 \<Rightarrow> Raised e t2
       | Done t2 \<Rightarrow> pop (self_class ct) t2))"
proof (intro conjI impI)
  show "maybe_register_container ct ui (maybe_register_container ct ui' body) t =
        maybe_register_container ct ui body t"
  proof (cases "t (self_class ct)")
    case None
    have "(t(self_class ct \<mapsto> Container_factory ct ui)) (self_class ct) =
          Some (Container_factory ct ui)"
      by simp
    then have "maybe_register_container ct ui' body (t(self_class ct \<mapsto> Container_factory ct ui)) =
               body (t(self_class ct \<mapsto> Container_factory ct ui))"
      by (rule maybe_register_container_bound)
    with None show ?thesis by (simp add: maybe_register_container_unbound)
  next
    case (Some e)
    then show ?thesis by (simp add: maybe_register_container_bound)
  qed
next
  assume "t (self_class ct) \<noteq> None"
  then show "maybe_register_container ct ui body t = body t"
    by (auto simp: maybe_register_container_bound)
next
  assume "t (self_class ct) = None"
  then show "maybe_register_container ct ui body t =
      (case body (t(self_class ct \<mapsto> Container_factory ct ui)) of
         Raised e t2 \<Rightarrow> Raised e t2
       | Done t2 \<Rightarrow> pop (self_class ct) t2)"
    by (rule maybe_register_container_unbound)
qed

theorem maybe_register_container_idempotent_witness:
  "engine_lookup (self_class Box) = None \<and>
   maybe_register_container Box False (maybe_register_container Box False Done) engine_lookup =
     Done engine_lookup \<and>
   (engine_lookup(self_class Box \<mapsto> Engine_entry 7)) (self_class Box) \<noteq> None \<and>
   maybe_register_container Box False Done (engine_lookup(self_class Box \<mapsto> Engine_entry 7)) =
     Done (engine_lookup(self_class Box \<mapsto> Engine_entry 7))"
proof -
  have unbound: "engine_lookup (self_class Box) = None"
    by (simp add: engine_lookup_simps)
  have "(engine_lookup(self_class Box \<mapsto> Container_factory Box False))(self_class Box := None) =
        engine_lookup"
    using unbound by (auto simp: fun_eq_iff)
  then show ?thesis
    using unbound
      maybe_register_container_idempotent [of Box False False Done engine_lookup]
      maybe_register_container_idempotent
        [of Box False False Done "engine_lookup(self_class Box \<mapsto> Engine_entry 7)"]
    by (simp add: pop_def)
qed

section \<open>The container factory and the interface pass\<close>

text \<open>
  C8. The union that the container factory returns has one member per construction
  method found: the raw constructor exactly when \<open>use_init\<close> is set and the class has a
  truthy \<open>__init__\<close>, \<open>from_value\<close>, \<open>from_failure\<close> and \<open>from_optional\<close> exactly
  for a subclass of \<open>ApplicativeN\<close>, \<open>ResultLikeN\<close> and \<open>MaybeLikeN\<close>, and nothing
  else. So no raw constructor of any class is a member unless \<open>use_init\<close> is set or no
  safer method exists.
\<close>

theorem container_factory_union:
  "\<exists>ss. create_container_factory ct ui requested = One_of ss \<and> distinct ss \<and>
     (Builds (Init (self_class ct)) \<in> set ss \<longleftrightarrow> ui \<and> dunder_init ct) \<and>
     (Builds (From_value (self_class ct)) \<in> set ss \<longleftrightarrow> issubclass ct ApplicativeN) \<and>
     (Builds (From_failure (self_class ct)) \<in> set ss \<longleftrightarrow> issubclass ct ResultLikeN) \<and>
     (Builds (From_optional (self_class ct)) \<in> set ss \<longleftrightarrow> issubclass ct MaybeLikeN) \<and>
     set ss \<subseteq> {Builds (Init (self_class ct)), Builds (From_value (self_class ct)),
               Builds (From_failure (self_class ct)), Builds (From_optional (self_class ct))} \<and>
     (\<not> (ui \<or> \<not> (issubclass ct ApplicativeN \<or> issubclass ct ResultLikeN \<or>
                    issubclass ct MaybeLikeN)) \<longrightarrow>
      (\<forall>c. Builds (Init c) \<notin> set ss))"
  unfolding create_container_factory_def by auto

theorem container_factory_union_witness:
  "issubclass Box ApplicativeN \<and>
   create_container_factory Box False (Class_type Mappable) =
     One_of [Builds (From_value (self_class Box))] \<and>
   create_container_factory Box True (Class_type Mappable) =
     One_of [Builds (Init (self_class Box)), Builds (From_value (self_class Box))]"
  using container_factory_union [of Box False "Class_type Mappable"]
  by (simp add: create_container_factory_def issubclass_def mro_def Box_def ApplicativeN_def
        ResultLikeN_def MaybeLikeN_def Mappable_def object_def)

lemma entered_eq:
  "entered ct ui t =
     (\<lambda>k. if k \<in> set (mro ct) \<and> prefix ''returns.'' (getattr_module k)
            then Some (Container_factory ct ui)
          else if k = self_class ct \<and> t k = None then Some (Container_factory ct ui)
          else t k)"
  by (auto simp: entered_def Let_def register_all_eq set_our_interfaces
      register_type_strategy_def fun_eq_iff)

lemma container_strategies_body_raises:
  assumes "body (entered ct (use_init settings) t) = Raised e t2"
  shows "container_strategies ct settings body t = Raised e t2"
  using assms
  by (simp add: container_strategies_def maybe_register_container_def entered_def Let_def
      split: if_splits)

lemma container_strategies_body_returns:
  assumes body: "body (entered ct (use_init settings) t) = Done t2"
    and bound: "\<forall>k\<in>popped ct t. t2 k \<noteq> None"
  shows "container_strategies ct settings body t =
         Done (\<lambda>k. if k \<in> popped ct t then None else t2 k)"
proof -
  let ?F = "Container_factory ct (use_init settings)"
  let ?t1 = "register_all (our_interfaces ct) ?F t"
  have unknown: "?t1 (self_class ct) = None \<longleftrightarrow>
        self_class ct \<notin> set (our_interfaces ct) \<and> t (self_class ct) = None"
    by (simp add: register_all_eq)
  show ?thesis
  proof (cases "?t1 (self_class ct) = None")
    case True
    then have p: "popped ct t = insert (self_class ct) (set (our_interfaces ct))"
      and notin: "self_class ct \<notin> set (our_interfaces ct)"
      using unknown by (auto simp: popped_def)
    from True body have b: "body (register_type_strategy (self_class ct) ?F ?t1) = Done t2"
      by (simp add: entered_def Let_def)
    from bound p obtain e where e: "t2 (self_class ct) = Some e" by auto
    have inner: "maybe_register_container ct (use_init settings) body ?t1 =
                 Done (t2(self_class ct := None))"
      using True b e by (simp add: maybe_register_container_def pop_def)
    have "pop_all (our_interfaces ct) (t2(self_class ct := None)) =
          Done (\<lambda>k. if k \<in> set (our_interfaces ct) then None
                     else (t2(self_class ct := None)) k)"
      using bound p notin by (intro pop_all_bound) (auto simp: distinct_our_interfaces)
    moreover have "(\<lambda>k. if k \<in> set (our_interfaces ct) then None
                          else (t2(self_class ct := None)) k) =
                   (\<lambda>k. if k \<in> popped ct t then None else t2 k)"
      by (auto simp: p fun_eq_iff)
    ultimately show ?thesis
      using inner by (simp add: container_strategies_def)
  next
    case False
    then have p: "popped ct t = set (our_interfaces ct)"
      using unknown by (auto simp: popped_def)
    from False body have b: "body ?t1 = Done t2"
      by (auto simp: entered_def Let_def)
    from False obtain x where "?t1 (self_class ct) = Some x" by auto
    then have inner: "maybe_register_container ct (use_init settings) body ?t1 = Done t2"
      using b by (simp add: maybe_register_container_bound)
    have "pop_all (our_interfaces ct) t2 =
          Done (\<lambda>k. if k \<in> set (our_interfaces ct) then None else t2 k)"
      using bound p by (intro pop_all_bound) (auto simp: distinct_our_interfaces)
    then show ?thesis
      using inner by (simp add: container_strategies_def p)
  qed
qed

text \<open>
  C10. The classes that \<open>container_strategies\<close> registers in its own loop are exactly
  the classes of the MRO whose module name starts with \<open>returns.\<close>. The body of the
  scope runs on the table \<open>entered\<close>: those keys set to the container factory, the
  container itself set to it when nothing was registered under it, and every other key
  as before. An exception of the body leaves the scope as it is; when the body returns
  with the keys of the scope still bound, the scope pops exactly these keys. A container
  class declared outside the package is not among the interfaces: the loop leaves its
  key alone, and at the start of the body it is bound by \<open>maybe_register_container\<close>
  (or was bound before), which also pops it.
\<close>

theorem interfaces_bound:
  "set (our_interfaces ct) =
     {base_type \<in> set (mro ct). prefix ''returns.'' (getattr_module base_type)} \<and>
   entered ct (use_init settings) t =
     (\<lambda>k. if k \<in> set (mro ct) \<and> prefix ''returns.'' (getattr_module k)
            then Some (Container_factory ct (use_init settings))
          else if k = self_class ct \<and> t k = None
            then Some (Container_factory ct (use_init settings))
          else t k) \<and>
   (body (entered ct (use_init settings) t) = Raised e t2 \<longrightarrow>
      container_strategies ct settings body t = Raised e t2) \<and>
   (body (entered ct (use_init settings) t) = Done t2 \<and> (\<forall>k\<in>popped ct t. t2 k \<noteq> None) \<longrightarrow>
      container_strategies ct settings body t =
        Done (\<lambda>k. if k \<in> popped ct t then None else t2 k)) \<and>
   (\<not> prefix ''returns.'' (getattr_module (self_class ct)) \<longrightarrow>
      self_class ct \<notin> set (our_interfaces ct) \<and>
      register_all (our_interfaces ct) (Container_factory ct (use_init settings)) t
        (self_class ct) = t (self_class ct) \<and>
      entered ct (use_init settings) t (self_class ct) =
        (case t (self_class ct) of
           None \<Rightarrow> Some (Container_factory ct (use_init settings))
         | Some e \<Rightarrow> Some e) \<and>
      popped ct t = set (our_interfaces ct) \<union>
        (if t (self_class ct) = None then {self_class ct} else {}))"
proof (intro conjI impI)
  show "set (our_interfaces ct) =
     {base_type \<in> set (mro ct). prefix ''returns.'' (getattr_module base_type)}"
    by (rule set_our_interfaces)
  show "entered ct (use_init settings) t =
     (\<lambda>k. if k \<in> set (mro ct) \<and> prefix ''returns.'' (getattr_module k)
            then Some (Container_factory ct (use_init settings))
          else if k = self_class ct \<and> t k = None
            then Some (Container_factory ct (use_init settings))
          else t k)"
    by (rule entered_eq)
next
  assume "body (entered ct (use_init settings) t) = Raised e t2"
  then show "container_strategies ct settings body t = Raised e t2"
    by (rule container_strategies_body_raises)
next
  assume "body (entered ct (use_init settings) t) = Done t2 \<and>
          (\<forall>k\<in>popped ct t. t2 k \<noteq> None)"
  then show "container_strategies ct settings body t =
        Done (\<lambda>k. if k \<in> popped ct t then None else t2 k)"
    by (intro container_strategies_body_returns) auto
next
  assume out: "\<not> prefix ''returns.'' (getattr_module (self_class ct))"
  then show notin: "self_class ct \<notin> set (our_interfaces ct)"
    by (simp add: set_our_interfaces)
  then show "register_all (our_interfaces ct) (Container_factory ct (use_init settings)) t
        (self_class ct) = t (self_class ct)"
    by (simp add: register_all_eq)
  from out show "entered ct (use_init settings) t (self_class ct) =
        (case t (self_class ct) of
           None \<Rightarrow> Some (Container_factory ct (use_init settings))
         | Some e \<Rightarrow> Some e)"
    by (simp add: entered_eq split: option.splits)
  from notin show "popped ct t = set (our_interfaces ct) \<union>
        (if t (self_class ct) = None then {self_class ct} else {})"
    by (simp add: popped_def)
qed

lemma Box_outside: "\<not> prefix ''returns.'' (getattr_module (self_class Box))"
  by (simp add: Box_def getattr_module_def)

theorem interfaces_bound_witness:
  "\<not> prefix ''returns.'' (getattr_module (self_class Box)) \<and>
   set (our_interfaces Box) = {Mappable, ApplicativeN} \<and>
   self_class Box \<notin> set (our_interfaces Box) \<and>
   entered Box False engine_lookup (self_class Box) = Some (Container_factory Box False) \<and>
   popped Box engine_lookup = {Mappable, ApplicativeN, self_class Box} \<and>
   container_strategies Box \<lparr>settings_kwargs = [], use_init = False\<rparr> failing engine_lookup =
     Raised (Engine_failure 0) (entered Box False engine_lookup) \<and>
   container_strategies Box \<lparr>settings_kwargs = [], use_init = False\<rparr> Done engine_lookup =
     Done engine_lookup"
proof -
  let ?s = "\<lparr>settings_kwargs = [], use_init = False\<rparr>"
  let ?t = "entered Box False engine_lookup"
  have p: "popped Box engine_lookup = {Mappable, ApplicativeN, self_class Box}"
    by (auto simp: popped_def our_interfaces_Box engine_lookup_simps)
  have e: "?t = engine_lookup(Mappable \<mapsto> Container_factory Box False,
       ApplicativeN \<mapsto> Container_factory Box False,
       self_class Box \<mapsto> Container_factory Box False)"
    by (auto simp: entered_def Let_def register_all_eq our_interfaces_Box engine_lookup_simps
        register_type_strategy_def fun_eq_iff)
  have b: "\<forall>k\<in>popped Box engine_lookup. ?t k \<noteq> None"
    unfolding p e by simp
  have restored: "(\<lambda>k. if k \<in> popped Box engine_lookup then None else ?t k) = engine_lookup"
    unfolding p e by (auto simp: fun_eq_iff engine_lookup_simps)
  have f: "failing ?t = Raised (Engine_failure 0) ?t"
    by (simp add: failing_def)
  from interfaces_bound [of Box ?s engine_lookup failing "Engine_failure 0" ?t]
    interfaces_bound [of Box ?s engine_lookup Done _ ?t]
    Box_outside p b restored f
  show ?thesis
    by (simp add: our_interfaces_Box engine_lookup_simps)
qed

section \<open>The check of one law\<close>

lemma typing_not_ours:
  "TypeVar \<notin> set (our_interfaces ct)" "Callable \<notin> set (our_interfaces ct)"
  by (simp_all add: set_our_interfaces TypeVar_def Callable_def getattr_module_def)

lemma nested_scopes_restore:
  assumes tv: "t TypeVar \<noteq> None" and cl: "t Callable \<noteq> None"
    and fresh: "\<forall>k\<in>set (our_interfaces ct). t k = None"
    and body: "\<And>u. body u = Done u"
  shows "type_vars (pure_functions (container_strategies ct settings body)) t = Done t"
proof -
  let ?t1 = "register_type_strategy TypeVar Type_vars_factory t"
  let ?t2 = "register_type_strategy Callable Pure_functions_factory ?t1"
  have "\<forall>k\<in>set (our_interfaces ct). ?t2 k = None"
    using fresh typing_not_ours [of ct] by (auto simp: register_type_strategy_def)
  then have "container_strategies ct settings body ?t2 = Done ?t2"
    by (rule container_strategies_restores) (rule body)
  moreover have "?t1 Callable \<noteq> None"
    using cl by (simp add: register_type_strategy_def)
  ultimately have "pure_functions (container_strategies ct settings body) ?t1 = Done ?t1"
    by (intro pure_functions_restores)
  with tv show ?thesis
    by (intro type_vars_restores)
qed

text \<open>
  C9. The version test is the first statement of the check itself, so every run of the
  check makes it: below Python 3.7 the check raises \<open>RuntimeError\<close> with the table
  untouched, whatever the container, the law, the data object and the table are; from
  3.7 on the check is the three nested scopes around the draw.
\<close>

theorem run_law_environment_check:
  "(version_less pyversion (3, 7) \<longleftrightarrow>
      fst pyversion < 3 \<or> fst pyversion = 3 \<and> snd pyversion < 7) \<and>
   (version_less pyversion (3, 7) \<longrightarrow>
      run_law pyversion ct l settings source t = Raised RuntimeError t) \<and>
   (\<not> version_less pyversion (3, 7) \<longrightarrow>
      run_law pyversion ct l settings source t =
        type_vars (pure_functions (container_strategies ct settings
          (source (Builds (Law_definition (law_definition l)))))) t)"
  by (simp add: run_law_def version_less_def)

theorem run_law_environment_check_witness:
  "version_less (3, 6) (3, 7) \<and>
   run_law (3, 6) Box identity \<lparr>settings_kwargs = [], use_init = False\<rparr> (\<lambda>s. Done)
     engine_lookup = Raised RuntimeError engine_lookup \<and>
   \<not> version_less (3, 7) (3, 7) \<and>
   run_law (3, 7) Box identity \<lparr>settings_kwargs = [], use_init = False\<rparr> (\<lambda>s. Done)
     engine_lookup = Done engine_lookup"
proof -
  let ?s = "\<lparr>settings_kwargs = [], use_init = False\<rparr>"
  have v: "version_less (3, 6) (3, 7)" "\<not> version_less (3, 7) (3, 7)"
    by (simp_all add: version_less_def)
  have c: "type_vars (pure_functions (container_strategies Box ?s Done)) engine_lookup =
           Done engine_lookup"
    by (rule nested_scopes_restore) (simp_all add: engine_lookup_simps our_interfaces_Box)
  show ?thesis
    using v c run_law_environment_check [of "(3, 6)" Box identity ?s "\<lambda>s. Done" engine_lookup]
      run_law_environment_check [of "(3, 7)" Box identity ?s "\<lambda>s. Done" engine_lookup]
    by simp
qed

section \<open>Names of the test cases\<close>

lemma ascii_lower_char_idem: "ascii_lower_char (ascii_lower_char c) = ascii_lower_char c"
  by (simp add: ascii_lower_char_def Let_def)

lemma ascii_lower_idem: "ascii_lower (ascii_lower s) = ascii_lower s"
  by (simp add: ascii_lower_def ascii_lower_char_idem)

lemma ascii_lower_append: "ascii_lower (a @ b) = ascii_lower a @ ascii_lower b"
  by (simp add: ascii_lower_def)

lemma ascii_lower_fixed: "ascii_lower ''test_'' = ''test_''" "ascii_lower ''_'' = ''_''"
  by code_simp+

lemma is_ascii_append: "is_ascii (a @ b) \<longleftrightarrow> is_ascii a \<and> is_ascii b"
  by (simp add: is_ascii_def)

lemma is_ascii_lower: "is_ascii s \<Longrightarrow> is_ascii (ascii_lower s)"
  by (induction s) (auto simp: is_ascii_def ascii_lower_def ascii_lower_char_def Let_def)

lemma is_ascii_fixed: "is_ascii ''test_''" "is_ascii ''_''"
  by code_simp+

text \<open>
  C4. The claim: the name is \<open>test_<container>_<interface>_<law>\<close> with every
  component lower-cased. It fails on the code for the law name, which is used as it is:
  the law \<open>Identity\<close> of \<open>Mappable\<close> on \<open>Box\<close> is published as
  \<open>test_box_mappable_Identity\<close>.
\<close>

theorem test_name_counterexample:
  "test_name ascii_lower Box Mappable Identity_law = ''test_box_mappable_Identity'' \<and>
   test_name ascii_lower Box Mappable Identity_law \<noteq>
     ''test_'' @ ascii_lower (qualname (self_class Box)) @ ''_'' @
     ascii_lower (qualname Mappable) @ ''_'' @ ascii_lower (law_name Identity_law)"
  by code_simp

text \<open>
  C4, as the code has it. The name is \<open>test_\<close>, the lower-cased qualified name of the
  container, the lower-cased qualified name of the interface and the law name unchanged,
  joined by underscores, whatever \<open>str.lower\<close> does; it is the name of the claim
  exactly when lower-casing leaves the law name as it is. For names of ASCII characters,
  where \<open>str.lower\<close> is \<open>ascii_lower\<close>: the name is all lower case when the law name
  is, and \<open>Box\<close>, \<open>Mappable\<close> and \<open>identity\<close> give
  \<open>test_box_mappable_identity\<close>.
\<close>

theorem test_name_shape:
  "test_name str_lower ct interface l =
     ''test_'' @ str_lower (qualname (self_class ct)) @ ''_'' @
     str_lower (qualname interface) @ ''_'' @ law_name l \<and>
   (test_name str_lower ct interface l =
      ''test_'' @ str_lower (qualname (self_class ct)) @ ''_'' @
      str_lower (qualname interface) @ ''_'' @ str_lower (law_name l) \<longleftrightarrow>
    str_lower (law_name l) = law_name l) \<and>
   ((\<forall>s. is_ascii s \<longrightarrow> str_lower s = ascii_lower s) \<and>
    is_ascii (qualname (self_class ct)) \<and> is_ascii (qualname interface) \<and>
    is_ascii (law_name l) \<longrightarrow>
      test_name str_lower ct interface l =
        ''test_'' @ ascii_lower (qualname (self_class ct)) @ ''_'' @
        ascii_lower (qualname interface) @ ''_'' @ law_name l \<and>
      (ascii_lower (law_name l) = law_name l \<longrightarrow>
         str_lower (test_name str_lower ct interface l) = test_name str_lower ct interface l) \<and>
      (qualname (self_class ct) = ''Box'' \<and> qualname interface = ''Mappable'' \<and>
       law_name l = ''identity'' \<longrightarrow>
         test_name str_lower ct interface l = ''test_box_mappable_identity''))"
proof (intro conjI impI)
  show "test_name str_lower ct interface l =
     ''test_'' @ str_lower (qualname (self_class ct)) @ ''_'' @
     str_lower (qualname interface) @ ''_'' @ law_name l"
    by (simp add: test_name_def)
  show "test_name str_lower ct interface l =
      ''test_'' @ str_lower (qualname (self_class ct)) @ ''_'' @
      str_lower (qualname interface) @ ''_'' @ str_lower (law_name l) \<longleftrightarrow>
    str_lower (law_name l) = law_name l"
    by (auto simp: test_name_def)
next
  assume a: "(\<forall>s. is_ascii s \<longrightarrow> str_lower s = ascii_lower s) \<and>
    is_ascii (qualname (self_class ct)) \<and> is_ascii (qualname interface) \<and>
    is_ascii (law_name l)"
  then show n: "test_name str_lower ct interface l =
        ''test_'' @ ascii_lower (qualname (self_class ct)) @ ''_'' @
        ascii_lower (qualname interface) @ ''_'' @ law_name l"
    by (simp add: test_name_def)
  {
    assume low: "ascii_lower (law_name l) = law_name l"
    have "is_ascii (test_name str_lower ct interface l)"
      unfolding n using a is_ascii_fixed
      by (simp only: is_ascii_append is_ascii_lower simp_thms)
    with a have "str_lower (test_name str_lower ct interface l) =
                 ascii_lower (test_name str_lower ct interface l)"
      by blast
    also have "\<dots> = test_name str_lower ct interface l"
      unfolding n ascii_lower_append ascii_lower_idem ascii_lower_fixed low ..
    finally show "str_lower (test_name str_lower ct interface l) =
                  test_name str_lower ct interface l" .
  }
  {
    assume b: "qualname (self_class ct) = ''Box'' \<and> qualname interface = ''Mappable'' \<and>
       law_name l = ''identity''"
    have "ascii_lower ''Box'' = ''box''" "ascii_lower ''Mappable'' = ''mappable''"
      by code_simp+
    with b show "test_name str_lower ct interface l = ''test_box_mappable_identity''"
      unfolding n by simp
  }
qed

theorem test_name_shape_witness:
  "is_ascii (qualname (self_class Box)) \<and> is_ascii (qualname Mappable) \<and>
   is_ascii (law_name identity) \<and>
   ascii_lower (law_name identity) = law_name identity \<and>
   qualname (self_class Box) = ''Box'' \<and> qualname Mappable = ''Mappable'' \<and>
   law_name identity = ''identity'' \<and>
   test_name ascii_lower Box Mappable identity = ''test_box_mappable_identity'' \<and>
   ascii_lower (test_name ascii_lower Box Mappable identity) =
     test_name ascii_lower Box Mappable identity"
proof -
  have "is_ascii (qualname (self_class Box))" "is_ascii (qualname Mappable)"
    "is_ascii (law_name identity)" "ascii_lower (law_name identity) = law_name identity"
    by code_simp+
  moreover have "qualname (self_class Box) = ''Box''" "qualname Mappable = ''Mappable''"
    "law_name identity = ''identity''"
    by (simp_all add: Box_def Mappable_def identity_def)
  ultimately show ?thesis
    using test_name_shape [of ascii_lower Box Mappable identity] by blast
qed

section \<open>Publishing\<close>

lemma create_all_Some:
  assumes ok: "settings_ok (settings_kwargs settings)"
  shows "\<exists>m'. create_all str_lower settings_ok ct settings ps (Some m) = Inr (Some m') \<and>
     (\<forall>n. m' n =
        (if named str_lower ct n ps = [] then m n
         else Some (the_test str_lower ct settings (last (named str_lower ct n ps)))))"
proof (induction ps arbitrary: m)
  case Nil
  then show ?case by (simp add: named_def)
next
  case (Cons p ps)
  obtain interface l where p: "p = (interface, l)" by (cases p)
  let ?m1 = "m(test_name str_lower ct interface l \<mapsto> the_test str_lower ct settings p)"
  from Cons.IH [of ?m1] obtain m' where
    m': "create_all str_lower settings_ok ct settings ps (Some ?m1) = Inr (Some m')"
    and v: "\<forall>n. m' n =
        (if named str_lower ct n ps = [] then ?m1 n
         else Some (the_test str_lower ct settings (last (named str_lower ct n ps))))"
    by blast
  have "create_all str_lower settings_ok ct settings (p # ps) (Some m) = Inr (Some m')"
    using m' ok by (simp add: p create_law_test_case_def the_test_def)
  moreover have "\<forall>n. m' n =
        (if named str_lower ct n (p # ps) = [] then m n
         else Some (the_test str_lower ct settings (last (named str_lower ct n (p # ps)))))"
    using v by (auto simp: named_def p)
  ultimately show ?case by blast
qed


lemma named_empty_iff:
  "named str_lower ct n ps = [] \<longleftrightarrow>
   n \<notin> set (map (\<lambda>(interface, l). test_name str_lower ct interface l) ps)"
  by (auto simp: named_def filter_empty_conv)







text \<open>
  C2. The claim: for a container with no construction capability the entry point raises
  before it publishes anything. It fails on the code: \<open>check_all_laws\<close> never calls the
  container factory, and the factory never raises. \<open>Bare\<close> has no capability, its test
  case is published all the same, and its factory returns the empty union.
\<close>

theorem no_capability_counterexample:
  "no_capability Bare False \<and>
   published (check_all_laws ascii_lower no_settings Bare None False (Some Map.empty)) =
     {''test_bare_mappable_identity''} \<and>
   create_container_factory Bare False (Class_type Mappable) = One_of []"
proof -
  have n: "test_name ascii_lower Bare Mappable identity = ''test_bare_mappable_identity''"
    by code_simp
  have c: "no_capability Bare False"
    by (simp add: no_capability_def issubclass_def mro_def Bare_def ApplicativeN_def
        ResultLikeN_def MaybeLikeN_def Mappable_def object_def)
  have "law_pairs Bare = [(Mappable, identity)]"
    by (simp add: law_pairs_def Bare_def)
  then have "published (check_all_laws ascii_lower no_settings Bare None False
                 (Some Map.empty)) = {''test_bare_mappable_identity''}"
    by (simp add: check_all_laws_def create_law_test_case_def n no_settings_def)
  moreover have "create_container_factory Bare False (Class_type Mappable) = One_of []"
    using c by (simp add: create_container_factory_def no_capability_def)
  ultimately show ?thesis using c by blast
qed

text \<open>
  C2, as the code has it. For a container with no construction capability nothing fails
  at registration or build time on account of that: the factory returns the empty union
  \<open>one_of()\<close> when the engine calls it; with settings that the engine accepts and a
  module to publish into, \<open>check_all_laws\<close> returns normally and publishes under every
  name as for any other container; and \<open>container_strategies\<close> registers the factory
  under every interface and runs its body, so that an exception of the scope is the
  body's own.
\<close>

theorem no_capability_unnoticed:
  "no_capability ct ui \<longrightarrow>
     create_container_factory ct ui requested = One_of [] \<and>
     call_entry other (Container_factory ct ui) requested = Inr (One_of []) \<and>
     (settings_ok (case kwargs of None \<Rightarrow> [] | Some kw \<Rightarrow> kw) \<longrightarrow>
        (\<exists>m'. check_all_laws str_lower settings_ok ct kwargs ui (Some m) = Inr (Some m') \<and>
               dom m' = dom m \<union> set (published_names str_lower ct))) \<and>
     (\<forall>k\<in>set (our_interfaces ct).
        entered ct ui t k = Some (Container_factory ct ui)) \<and>
     (body (entered ct ui t) = Raised e t2 \<longrightarrow>
        container_strategies ct \<lparr>settings_kwargs = kw, use_init = ui\<rparr> body t = Raised e t2)"
proof (intro impI conjI)
  assume c: "no_capability ct ui"
  then show "create_container_factory ct ui requested = One_of []"
    by (simp add: create_container_factory_def no_capability_def)
  then show "call_entry other (Container_factory ct ui) requested = Inr (One_of [])"
    by (simp add: call_entry_def)
  show "\<forall>k\<in>set (our_interfaces ct). entered ct ui t k = Some (Container_factory ct ui)"
    by (auto simp: entered_def register_all_eq register_type_strategy_def Let_def)
next
  let ?s = "\<lparr>settings_kwargs = (case kwargs of None \<Rightarrow> [] | Some kw \<Rightarrow> kw), use_init = ui\<rparr>"
  assume "settings_ok (case kwargs of None \<Rightarrow> [] | Some kw \<Rightarrow> kw)"
  then have "settings_ok (settings_kwargs ?s)" by simp
  from create_all_Some [of settings_ok ?s str_lower ct "law_pairs ct" m, OF this]
  obtain m' where
    m': "create_all str_lower settings_ok ct ?s (law_pairs ct) (Some m) = Inr (Some m')"
    and v: "\<forall>n. m' n =
        (if named str_lower ct n (law_pairs ct) = [] then m n
         else Some (the_test str_lower ct ?s (last (named str_lower ct n (law_pairs ct)))))"
    by blast
  have "dom m' = dom m \<union> set (published_names str_lower ct)"
    using v by (auto simp: published_names_def named_empty_iff dom_def split: if_splits)
  with m' show "\<exists>m'. check_all_laws str_lower settings_ok ct kwargs ui (Some m) =
        Inr (Some m') \<and> dom m' = dom m \<union> set (published_names str_lower ct)"
    by (simp add: check_all_laws_def)
next
  assume "body (entered ct ui t) = Raised e t2"
  then show "container_strategies ct \<lparr>settings_kwargs = kw, use_init = ui\<rparr> body t =
             Raised e t2"
    by (intro container_strategies_body_raises) simp
qed

theorem no_capability_unnoticed_witness:
  "no_capability Bare False \<and> no_settings [] \<and>
   create_container_factory Bare False (Class_type Mappable) = One_of [] \<and>
   published (check_all_laws ascii_lower no_settings Bare None False (Some Map.empty)) =
     set (published_names ascii_lower Bare) \<and>
   container_strategies Bare \<lparr>settings_kwargs = [], use_init = False\<rparr> failing engine_lookup =
     Raised (Engine_failure 0) (entered Bare False engine_lookup)"
proof -
  have c: "no_capability Bare False"
    by (simp add: no_capability_def issubclass_def mro_def Bare_def ApplicativeN_def
        ResultLikeN_def MaybeLikeN_def Mappable_def object_def)
  have f: "failing (entered Bare False engine_lookup) =
           Raised (Engine_failure 0) (entered Bare False engine_lookup)"
    by (simp add: failing_def)
  have ok: "no_settings (case None of None \<Rightarrow> [] | Some kw \<Rightarrow> kw)" "no_settings []"
    by (simp_all add: no_settings_def)
  from c f ok no_capability_unnoticed
    [of Bare False "Class_type Mappable" "\<lambda>n thing. Inl IndexError" no_settings None
        ascii_lower Map.empty engine_lookup failing "Engine_failure 0"
        "entered Bare False engine_lookup" "[]"]
  show ?thesis by auto
qed

section \<open>Type variables and callables\<close>

text \<open>
  C5. The strategy that the factory of \<open>type_vars\<close> returns for a type variable yields
  exactly the values that the engine's own resolution of the variable yields and that are
  equal to themselves: every value drawn is self-equal, and no other value is excluded.
  This factory is what the engine finds under \<open>TypeVar\<close> while the body of the scope
  runs.
\<close>

theorem type_vars_self_equal:
  "(yields eng (type_vars_factory thing) v \<longleftrightarrow> eng (Resolve_TypeVar thing) v \<and> py_eq v v) \<and>
   (yields eng (type_vars_factory thing) v \<longrightarrow> py_eq v v) \<and>
   (py_eq v v \<longleftrightarrow> v \<noteq> PyNaN) \<and>
   call_entry other Type_vars_factory thing = Inr (type_vars_factory thing) \<and>
   (t TypeVar \<noteq> None \<longrightarrow>
      type_vars body t =
        (case body (t(TypeVar \<mapsto> Type_vars_factory)) of
           Raised e t2 \<Rightarrow> Raised e t2
         | Done t2 \<Rightarrow>
             (case pop TypeVar t2 of
                Raised e t3 \<Rightarrow> Raised e t3
              | Done t3 \<Rightarrow> Done (t3(TypeVar := t TypeVar)))))"
proof -
  have "py_eq v v \<longleftrightarrow> v \<noteq> PyNaN"
    by (cases v) simp_all
  then show ?thesis
    by (auto simp: type_vars_factory_def call_entry_def type_vars_def
        register_type_strategy_def split: outcome.splits)
qed

theorem type_vars_self_equal_witness:
  "\<not> yields (\<lambda>s v. True) (type_vars_factory (TypeVar_type ''A'')) PyNaN \<and>
   yields (\<lambda>s v. True) (type_vars_factory (TypeVar_type ''A'')) (PyInt 3) \<and>
   py_eq (PyInt 3) (PyInt 3) \<and>
   engine_lookup TypeVar \<noteq> None \<and>
   type_vars failing engine_lookup =
     Raised (Engine_failure 0) (engine_lookup(TypeVar \<mapsto> Type_vars_factory))"
  using type_vars_self_equal
      [of "\<lambda>s v. True" "TypeVar_type ''A''" PyNaN "\<lambda>n thing. Inl IndexError" engine_lookup
        failing]
    type_vars_self_equal
      [of "\<lambda>s v. True" "TypeVar_type ''A''" "PyInt 3" "\<lambda>n thing. Inl IndexError"
        engine_lookup failing]
  by (simp add: engine_lookup_simps failing_def)










end
